theory Spec2Isabelle
  imports Main "HOL-Library.Word"
begin

section \<open>The per-call relay of avr-sts-ultravox\<close>

text \<open>
  The relay is the function \<^verbatim>\<open>handleAudioStream\<close> of the entry point (the newest of the
  versions kept under \<^verbatim>\<open>src/unnamed/part_003\<close>) together with \<^verbatim>\<open>getToolHandler\<close> of
  \<^verbatim>\<open>src/loadTools.js\<close>. It registers event callbacks on the backend WebSocket and on the
  caller's request stream; the callbacks share four closure variables. Each callback is
  modelled as a function from the closure variables (a record) and what the event carries
  to the list of effects it performs, the updated variables and how it completes.
\<close>

subsection \<open>JavaScript values\<close>

text \<open>
  The values that cross the relay: parsed control messages, handler results and thrown
  values. They are data: numbers, texts, arrays, objects given by their own enumerable
  properties, \<^verbatim>\<open>BigInt\<close>s, objects that lie on a cycle of references (\<open>JCircular\<close>, given
  by their other properties), and \<^verbatim>\<open>Error\<close>s with their \<^verbatim>\<open>name\<close>, their \<^verbatim>\<open>message\<close> and
  the enumerable properties added to them. Functions, symbols and objects with methods
  or accessors of their own (a \<^verbatim>\<open>toJSON\<close>, a getter) are not among them. The relay never
  computes with a number: \<open>JNum t\<close> and \<open>JBigInt t\<close> are the number that JavaScript
  prints as the text \<open>t\<close>.
\<close>

datatype js =
    JUndefined
  | JNull
  | JBool bool
  | JNum string
  | JBigInt string
  | JStr string
  | JArr "js list"
  | JObj "string \<Rightarrow> js option"
  | JCircular "string \<Rightarrow> js option"
  | JError string string "string \<Rightarrow> js option"

type_synonym obj = "string \<Rightarrow> js option"

type_synonym byte = "8 word"

text \<open>\<^verbatim>\<open>new Error(message)\<close> and its kin.\<close>

definition js_Error :: "string \<Rightarrow> string \<Rightarrow> js" where
  "js_Error name message = JError name message Map.empty"

text \<open>\<^verbatim>\<open>typeof v === 'string'\<close>\<close>

fun typeof_string :: "js \<Rightarrow> bool" where
  "typeof_string (JStr s) = True"
| "typeof_string v = False"

text \<open>The truth value a condition takes a value for (\<^verbatim>\<open>!v\<close>, \<^verbatim>\<open>v ? a : b\<close>).\<close>

fun truthy :: "js \<Rightarrow> bool" where
  "truthy JUndefined = False"
| "truthy JNull = False"
| "truthy (JBool b) = b"
| "truthy (JNum t) = (t \<noteq> ''0'' \<and> t \<noteq> ''NaN'')"
| "truthy (JBigInt t) = (t \<noteq> ''0'')"
| "truthy (JStr s) = (s \<noteq> [])"
| "truthy (JArr xs) = True"
| "truthy (JObj m) = True"
| "truthy (JCircular m) = True"
| "truthy (JError name message m) = True"

text \<open>
  The property read \<^verbatim>\<open>v.k\<close>: a \<^verbatim>\<open>TypeError\<close> is thrown (\<open>Inl\<close>) on \<^verbatim>\<open>undefined\<close> and
  \<^verbatim>\<open>null\<close>, an absent property reads as \<^verbatim>\<open>undefined\<close>. The relay reads only the
  properties \<^verbatim>\<open>type\<close>, \<^verbatim>\<open>callId\<close>, \<^verbatim>\<open>invocationId\<close>, \<^verbatim>\<open>toolName\<close>, \<^verbatim>\<open>parameters\<close>,
  \<^verbatim>\<open>final\<close>, \<^verbatim>\<open>role\<close>, \<^verbatim>\<open>medium\<close>, \<^verbatim>\<open>text\<close>, \<^verbatim>\<open>result\<close>, \<^verbatim>\<open>responseType\<close>, \<^verbatim>\<open>response\<close>,
  \<^verbatim>\<open>data\<close> and \<^verbatim>\<open>message\<close>, none of which a boolean, a number, a string or an array has.
  The texts of the errors are those of Node.js.
\<close>

definition cannot_read :: "string \<Rightarrow> string \<Rightarrow> js" where
  "cannot_read what k =
     js_Error ''TypeError''
       (''Cannot read properties of '' @ what @ '' (reading '' @ [CHR 0x27] @ k @ [CHR 0x27] @ '')'')"

fun js_get :: "js \<Rightarrow> string \<Rightarrow> js + js" where
  "js_get JUndefined k = Inl (cannot_read ''undefined'' k)"
| "js_get JNull k = Inl (cannot_read ''null'' k)"
| "js_get (JObj m) k = Inr (case m k of None \<Rightarrow> JUndefined | Some v \<Rightarrow> v)"
| "js_get (JCircular m) k = Inr (case m k of None \<Rightarrow> JUndefined | Some v \<Rightarrow> v)"
| "js_get (JError name message m) k =
     Inr (case m k of
            Some v \<Rightarrow> v
          | None \<Rightarrow> if k = ''message'' then JStr message
                    else if k = ''name'' then JStr name else JUndefined)"
| "js_get v k = Inr JUndefined"

text \<open>The read of a value already known to be neither \<^verbatim>\<open>undefined\<close> nor \<^verbatim>\<open>null\<close>.\<close>

definition js_prop :: "js \<Rightarrow> string \<Rightarrow> js" where
  "js_prop v k = (case js_get v k of Inl e \<Rightarrow> JUndefined | Inr x \<Rightarrow> x)"

text \<open>The own enumerable properties of a value, as the spread \<^verbatim>\<open>...v\<close> copies them.\<close>

fun own_enumerable :: "js \<Rightarrow> obj" where
  "own_enumerable (JObj m) = m"
| "own_enumerable (JCircular m) = m"
| "own_enumerable (JError name message m) = m"
| "own_enumerable v = Map.empty"

text \<open>
  The text a template literal makes of a value (\<^verbatim>\<open>`${v}`\<close>), or the \<^verbatim>\<open>TypeError\<close> it
  throws (\<open>Inl\<close>). An array is its elements joined by commas, with \<^verbatim>\<open>undefined\<close> and
  \<^verbatim>\<open>null\<close> elements left empty. An object is \<^verbatim>\<open>[object Object]\<close> by the method it inherits;
  when it has a property \<^verbatim>\<open>toString\<close> of its own, which in these values is no function, it
  cannot be converted.
\<close>

fun join :: "string list \<Rightarrow> string" where
  "join [] = []"
| "join [t] = t"
| "join (t # u # ts) = t @ '','' @ join (u # ts)"

definition cannot_convert :: js where
  "cannot_convert = js_Error ''TypeError'' ''Cannot convert object to primitive value''"

fun ToString :: "js \<Rightarrow> js + string" and ToStrings :: "js list \<Rightarrow> js + string list" where
  "ToString JUndefined = Inr ''undefined''"
| "ToString JNull = Inr ''null''"
| "ToString (JBool b) = Inr (if b then ''true'' else ''false'')"
| "ToString (JNum t) = Inr t"
| "ToString (JBigInt t) = Inr t"
| "ToString (JStr s) = Inr s"
| "ToString (JArr xs) = (case ToStrings xs of Inl e \<Rightarrow> Inl e | Inr ts \<Rightarrow> Inr (join ts))"
| "ToString (JObj m) =
     (case m ''toString'' of None \<Rightarrow> Inr ''[object Object]'' | Some v \<Rightarrow> Inl cannot_convert)"
| "ToString (JCircular m) =
     (case m ''toString'' of None \<Rightarrow> Inr ''[object Object]'' | Some v \<Rightarrow> Inl cannot_convert)"
| "ToString (JError name message m) =
     (case m ''toString'' of
        None \<Rightarrow> Inr (if message = [] then name else name @ '': '' @ message)
      | Some v \<Rightarrow> Inl cannot_convert)"
| "ToStrings [] = Inr []"
| "ToStrings (x # xs) =
     (case (case x of JUndefined \<Rightarrow> Inr [] | JNull \<Rightarrow> Inr [] | _ \<Rightarrow> ToString x) of
        Inl e \<Rightarrow> Inl e
      | Inr t \<Rightarrow> (case ToStrings xs of Inl e \<Rightarrow> Inl e | Inr ts \<Rightarrow> Inr (t # ts)))"

text \<open>
  \<^verbatim>\<open>JSON.stringify\<close>. It throws a \<^verbatim>\<open>TypeError\<close> on a value that holds a \<^verbatim>\<open>BigInt\<close> or a
  cycle anywhere in it (\<open>unserialisable\<close>); the text of that error, which names the one
  or the other, is left empty. Otherwise it writes a JSON text, given here by the value
  the text denotes (\<open>wire\<close>): a property whose value is \<^verbatim>\<open>undefined\<close> is left out, an
  \<^verbatim>\<open>undefined\<close> element of an array and the numbers that are not finite are written as
  \<^verbatim>\<open>null\<close>, and of an \<^verbatim>\<open>Error\<close> only the enumerable properties are written. Nothing is
  written for \<^verbatim>\<open>undefined\<close> itself (\<open>None\<close>).
\<close>

primrec unserialisable :: "js \<Rightarrow> bool" where
  "unserialisable JUndefined = False"
| "unserialisable JNull = False"
| "unserialisable (JBool b) = False"
| "unserialisable (JNum t) = False"
| "unserialisable (JBigInt t) = True"
| "unserialisable (JStr s) = False"
| "unserialisable (JArr xs) = (True \<in> set (map unserialisable xs))"
| "unserialisable (JObj m) = (\<exists>k. map_option unserialisable (m k) = Some True)"
| "unserialisable (JCircular m) = True"
| "unserialisable (JError name message m) = (\<exists>k. map_option unserialisable (m k) = Some True)"

definition not_serialisable :: js where
  "not_serialisable = js_Error ''TypeError'' []"

primrec wire :: "js \<Rightarrow> js option" where
  "wire JUndefined = None"
| "wire JNull = Some JNull"
| "wire (JBool b) = Some (JBool b)"
| "wire (JNum t) = Some (if t \<in> {''NaN'', ''Infinity'', ''-Infinity''} then JNull else JNum t)"
| "wire (JBigInt t) = None"
| "wire (JStr s) = Some (JStr s)"
| "wire (JArr xs) =
     Some (JArr (map (\<lambda>w. case w of None \<Rightarrow> JNull | Some v \<Rightarrow> v) (map wire xs)))"
| "wire (JObj m) =
     Some (JObj (\<lambda>k. case map_option wire (m k) of None \<Rightarrow> None | Some w \<Rightarrow> w))"
| "wire (JCircular m) = None"
| "wire (JError name message m) =
     Some (JObj (\<lambda>k. case map_option wire (m k) of None \<Rightarrow> None | Some w \<Rightarrow> w))"

text \<open>The properties of the object that the text written for an object denotes.\<close>

definition wire_obj :: "obj \<Rightarrow> obj" where
  "wire_obj m k = (case m k of None \<Rightarrow> None | Some v \<Rightarrow> wire v)"

subsection \<open>Effects, completion and the closure variables\<close>

text \<open>
  What a callback does to the outside, in order. Console output is recorded by the leading
  literal of the statement. \<open>WsSendJSON m\<close> is \<^verbatim>\<open>ultravoxWebSocket.send(JSON.stringify(m))\<close>
  once \<^verbatim>\<open>JSON.stringify\<close> has not thrown: the effect carries the object \<open>m\<close> that is
  serialised, and the text that is sent denotes \<open>wire_obj m\<close>. The send itself is taken
  not to throw. \<open>HandlerCall uuid parameters\<close> is the call of a tool handler.
\<close>

datatype effect =
    ConsoleLog string
  | ConsoleError string
  | ResWrite "byte list"
  | ResEnd
  | WsSendJSON obj
  | WsSendBinary "byte list"
  | WsClose
  | HandlerCall js js

text \<open>
  A callback returns (\<open>Done\<close>), lets a thrown value escape (\<open>Raised\<close>: for an \<^verbatim>\<open>async\<close>
  callback its promise is rejected and nobody handles the rejection), or stays suspended at
  an \<^verbatim>\<open>await\<close> whose promise never settles (\<open>Suspended\<close>).
\<close>

datatype completion = Done | Raised js | Suspended

record session =
  ultravoxChunksQueue :: "byte list"
  isFirstUltravoxChunk :: bool
  ultravoxStartTime :: "int option"
  callId :: js

definition session0 :: session where
  "session0 =
     \<lparr>ultravoxChunksQueue = [], isFirstUltravoxChunk = True, ultravoxStartTime = None,
      callId = JNull\<rparr>"

fun writes :: "effect list \<Rightarrow> byte list list" where
  "writes [] = []"
| "writes (ResWrite b # es) = b # writes es"
| "writes (e # es) = writes es"

fun sends :: "effect list \<Rightarrow> obj list" where
  "sends [] = []"
| "sends (WsSendJSON m # es) = m # sends es"
| "sends (e # es) = sends es"

text \<open>The messages as the backend reads them.\<close>

definition sent :: "effect list \<Rightarrow> obj list" where
  "sent es = map wire_obj (sends es)"

fun handler_calls :: "effect list \<Rightarrow> (js \<times> js) list" where
  "handler_calls [] = []"
| "handler_calls (HandlerCall u p # es) = (u, p) # handler_calls es"
| "handler_calls (e # es) = handler_calls es"

fun closes :: "effect list \<Rightarrow> nat" where
  "closes [] = 0"
| "closes (WsClose # es) = Suc (closes es)"
| "closes (e # es) = closes es"

fun consoles :: "effect list \<Rightarrow> string list" where
  "consoles [] = []"
| "consoles (ConsoleLog t # es) = t # consoles es"
| "consoles (ConsoleError t # es) = t # consoles es"
| "consoles (e # es) = consoles es"

subsection \<open>Backend audio: the binary branch of the message callback\<close>

text \<open>
  \<^verbatim>\<open>Date.now()\<close> is read up to twice while a binary frame is handled: \<open>now1\<close> is what the
  first read returns (made only while \<^verbatim>\<open>isFirstUltravoxChunk\<close> holds), \<open>now2\<close> what the
  read in the flush condition returns. \<^verbatim>\<open>ultravoxStartTime\<close> is \<^verbatim>\<open>null\<close> (\<open>None\<close>) or a
  number of milliseconds; the condition \<^verbatim>\<open>ultravoxStartTime && ...\<close> fails on \<^verbatim>\<open>null\<close> and
  on \<open>0\<close>.
\<close>

definition onBinary :: "session \<Rightarrow> byte list \<Rightarrow> int \<Rightarrow> int \<Rightarrow> effect list \<times> session" where
  "onBinary s data now1 now2 =
     (let (log, s1) =
            (if isFirstUltravoxChunk s
             then ([ConsoleLog ''First Ultravox audio chunk received, starting delay...''],
                   s\<lparr>ultravoxStartTime := Some now1, isFirstUltravoxChunk := False\<rparr>)
             else ([], s));
          s2 = s1\<lparr>ultravoxChunksQueue := ultravoxChunksQueue s1 @ data\<rparr>
      in if (case ultravoxStartTime s2 of None \<Rightarrow> False | Some t \<Rightarrow> t \<noteq> 0 \<and> 100 \<le> now2 - t)
         then (let bufferToWrite = ultravoxChunksQueue s2
               in (log @ [ResWrite bufferToWrite], s2\<lparr>ultravoxChunksQueue := []\<rparr>))
         else (log, s2))"

text \<open>
  A binary frame as the session receives it: its bytes and the two clock readings. The
  backend's frames reach the callback one after the other; \<open>receive\<close> gives the effects of
  each frame and the variables after the last one.
\<close>

record chunk =
  bytes :: "byte list"
  now1 :: int
  now2 :: int

fun receive :: "session \<Rightarrow> chunk list \<Rightarrow> effect list list \<times> session" where
  "receive s [] = ([], s)"
| "receive s (c # cs) =
     (let (es, s') = onBinary s (bytes c) (now1 c) (now2 c);
          (ess, s'') = receive s' cs
      in (es # ess, s''))"

text \<open>
  The reading of the specification, for comparison: the reference point is the first
  reading of the first frame after the previous flush (or after the start), and a frame
  may flush only when its second reading is at least 100 ms later. \<open>spec_window ref xs\<close>
  checks the observed frames \<open>xs\<close> (each with the effects the code performed on it) against
  that; \<open>ref\<close> is the reference point, \<open>None\<close> right after a flush and at the start.
\<close>

fun spec_window :: "int option \<Rightarrow> (chunk \<times> effect list) list \<Rightarrow> bool" where
  "spec_window ref [] = True"
| "spec_window ref ((c, es) # xs) =
     (let r = (case ref of None \<Rightarrow> now1 c | Some r \<Rightarrow> r)
      in if writes es = [] then spec_window (Some r) xs
         else 100 \<le> now2 c - r \<and> spec_window None xs)"

subsection \<open>Tool modules and \<^verbatim>\<open>getToolHandler\<close>\<close>

text \<open>
  A handler is an \<^verbatim>\<open>async\<close> function of the caller's uuid and the invocation's parameters:
  once awaited it returns a value, throws one, or never settles. What a tool module
  exports as \<^verbatim>\<open>handler\<close> is a falsy value (\<^verbatim>\<open>undefined\<close> when there is no such export), a
  truthy value that is not a function, or a function.
\<close>

datatype outcome = Returns js | Throws js | Pending

datatype handler_export = Falsy | NotCallable | Callable "js \<Rightarrow> js \<Rightarrow> outcome"

text \<open>
  The two directories \<^verbatim>\<open>getToolHandler\<close> looks into, and the file system as it sees it:
  \<open>fs (d, f)\<close> is the file at \<^verbatim>\<open>path.join(__dirname, d, f)\<close>, \<open>None\<close> when \<^verbatim>\<open>fs.access\<close>
  rejects. \<^verbatim>\<open>require\<close> of a file gives its module, of which \<^verbatim>\<open>handler\<close> is read, or
  one of the two throws.
\<close>

datatype tool_dir = Avr_tools | Tools

datatype tool_file = Module handler_export | LoadFails js

type_synonym filesystem = "tool_dir \<times> string \<Rightarrow> tool_file option"

fun first_accessible :: "filesystem \<Rightarrow> (tool_dir \<times> string) list \<Rightarrow> (tool_dir \<times> string) option" where
  "first_accessible fs [] = None"
| "first_accessible fs (filePath # rest) =
     (case fs filePath of Some file \<Rightarrow> Some filePath | None \<Rightarrow> first_accessible fs rest)"

text \<open>\<^verbatim>\<open>const tool = require(toolPath); return tool.handler;\<close>\<close>

definition require_handler :: "filesystem \<Rightarrow> tool_dir \<times> string \<Rightarrow> js + handler_export" where
  "require_handler fs toolPath =
     (case fs toolPath of
        None \<Rightarrow> Inl (js_Error ''Error'' ''Cannot find module'')
      | Some (LoadFails e) \<Rightarrow> Inl e
      | Some (Module handler) \<Rightarrow> Inr handler)"

text \<open>
  \<^verbatim>\<open>getToolHandler(name)\<close> is given the \<^verbatim>\<open>toolName\<close> of the message as it is; its template
  literals \<^verbatim>\<open>`${name}.js`\<close> make a text of it first.
\<close>

definition getToolHandler :: "filesystem \<Rightarrow> js \<Rightarrow> js + handler_export" where
  \<open>getToolHandler fs name =
     (case ToString name of
        Inl e \<Rightarrow> Inl e
      | Inr text \<Rightarrow>
          (let possiblePaths = [(Avr_tools, text @ ''.js''), (Tools, text @ ''.js'')]
           in case first_accessible fs possiblePaths of
                None \<Rightarrow> Inl (js_Error ''Error''
                               (''Tool "'' @ text @ ''" not found in any available directory''))
              | Some toolPath \<Rightarrow> require_handler fs toolPath))\<close>

subsection \<open>The hangup tool\<close>

text \<open>
  \<^verbatim>\<open>src/avr_tools/avrHangup.js\<close>. Its handler posts to the AMI bridge with \<^verbatim>\<open>axios.post\<close>
  (no timeout is configured): the request is answered with a body \<^verbatim>\<open>res.data\<close>, fails with
  an error whose \<^verbatim>\<open>message\<close> is a text, or is never answered. The handler's own
  \<^verbatim>\<open>try\<close> also covers the read of \<^verbatim>\<open>res.data.message\<close>.
\<close>

datatype http = Responds js | Fails string | Unanswered

definition avrHangup :: "http \<Rightarrow> js \<Rightarrow> js \<Rightarrow> outcome" where
  "avrHangup post uuid parameters =
     (case post of
        Unanswered \<Rightarrow> Pending
      | Fails message \<Rightarrow> Returns (JStr (''Error during hangup: '' @ message))
      | Responds data \<Rightarrow>
          (case js_get data ''message'' of
             Inl error \<Rightarrow>
               (case ToString (js_prop error ''message'') of
                  Inl e \<Rightarrow> Throws e
                | Inr text \<Rightarrow> Returns (JStr (''Error during hangup: '' @ text)))
           | Inr message \<Rightarrow>
               Returns (JObj [''responseText'' \<mapsto> message,
                              ''responseType'' \<mapsto> JStr ''tool-response''])))"

text \<open>The tool directory of the repository, as far as it is part of the sources.\<close>

definition avr_tools :: "http \<Rightarrow> filesystem" where
  "avr_tools post = [(Avr_tools, ''avrHangup.js'') \<mapsto> Module (Callable (avrHangup post))]"

subsection \<open>The \<^verbatim>\<open>client_tool_invocation\<close> case\<close>

text \<open>
  The fields the case reads from the control message. They come out of \<^verbatim>\<open>JSON.parse\<close>,
  and what \<^verbatim>\<open>JSON.parse\<close> gives \<^verbatim>\<open>JSON.stringify\<close> can write: the \<^verbatim>\<open>invocationId\<close> never
  makes the serialisation of an answer throw.
\<close>

record invocation =
  invocationId :: js
  toolName :: js
  parameters :: js

definition contract_diagnostic :: string where
  \<open>contract_diagnostic =
     ''Client tool result must be a string or an object with string "result" and "responseType" properties.''\<close>

text \<open>
  What follows \<^verbatim>\<open>const result = await handler(...)\<close> inside the \<^verbatim>\<open>try\<close> block. In the last
  branch \<^verbatim>\<open>JSON.stringify(result)\<close> is evaluated for the log before anything is sent, and
  throws when the result cannot be serialised. The template literals over \<^verbatim>\<open>toolName\<close>
  here come after \<^verbatim>\<open>getToolHandler\<close> has made a text of the same value, and do not throw.
\<close>

definition tool_result :: "invocation \<Rightarrow> js \<Rightarrow> effect list \<times> completion" where
  "tool_result invoc result =
     (let reject =
            ([WsSendJSON
                [''type'' \<mapsto> JStr ''client_tool_result'',
                 ''errorType'' \<mapsto> JStr ''implementation-error'',
                 ''errorMessage'' \<mapsto> JStr contract_diagnostic,
                 ''responseType'' \<mapsto> JStr ''tool-response'',
                 ''invocationId'' \<mapsto> invocationId invoc]], Done)
      in if typeof_string result
         then ([ConsoleLog ''>> Tool response: '',
                WsSendJSON
                  [''type'' \<mapsto> JStr ''client_tool_result'',
                   ''result'' \<mapsto> result,
                   ''responseType'' \<mapsto> JStr ''tool-response'',
                   ''invocationId'' \<mapsto> invocationId invoc]], Done)
         else (case js_get result ''result'' of
                 Inl e \<Rightarrow> ([], Raised e)
               | Inr r \<Rightarrow>
                   if \<not> typeof_string r then reject
                   else (case js_get result ''responseType'' of
                           Inl e \<Rightarrow> ([], Raised e)
                         | Inr t \<Rightarrow>
                             if \<not> typeof_string t then reject
                             else if unserialisable result then ([], Raised not_serialisable)
                             else ([ConsoleLog ''>> Tool response: '',
                                    WsSendJSON
                                      ([''type'' \<mapsto> JStr ''client_tool_result'']
                                       ++ own_enumerable result
                                       ++ [''invocationId'' \<mapsto> invocationId invoc])], Done))))"

text \<open>
  The \<^verbatim>\<open>try\<close> block: its effects, and \<open>Raised e\<close> when \<open>e\<close> is thrown inside it. The case
  reads and writes none of the closure variables, so the callbacks that run while it waits
  for the handler do not change what it does.
\<close>

definition tool_try :: "filesystem \<Rightarrow> js \<Rightarrow> invocation \<Rightarrow> effect list \<times> completion" where
  "tool_try fs uuid invoc =
     (case getToolHandler fs (toolName invoc) of
        Inl e \<Rightarrow> ([], Raised e)
      | Inr Falsy \<Rightarrow>
          (case ToString (toolName invoc) of
             Inl e \<Rightarrow> ([], Raised e)
           | Inr text \<Rightarrow>
               ([ConsoleError ''No handler found for tool: '',
                 WsSendJSON
                   [''type'' \<mapsto> JStr ''client_tool_result'',
                    ''invocationId'' \<mapsto> invocationId invoc,
                    ''errorType'' \<mapsto> JStr ''undefined'',
                    ''errorMessage'' \<mapsto> JStr (''Client tool '' @ text @ '' is not registered'')]],
                Done))
      | Inr NotCallable \<Rightarrow>
          ([ConsoleLog ''>> Tool call: ''],
           Raised (js_Error ''TypeError'' ''handler is not a function''))
      | Inr (Callable handler) \<Rightarrow>
          (let called = [ConsoleLog ''>> Tool call: '', HandlerCall uuid (parameters invoc)]
           in case handler uuid (parameters invoc) of
                Pending \<Rightarrow> (called, Suspended)
              | Throws e \<Rightarrow> (called, Raised e)
              | Returns result \<Rightarrow>
                  (let (es, c) = tool_result invoc result in (called @ es, c))))"

text \<open>
  The \<^verbatim>\<open>catch (toolError)\<close> block. Its three statements can throw in their turn, and
  nothing catches that: the read of \<^verbatim>\<open>toolError.response\<close>, the template literal over
  \<^verbatim>\<open>message.toolName\<close> in the log, and \<^verbatim>\<open>JSON.stringify\<close> of the answer, which holds the
  detail taken from the thrown value.
\<close>

definition catch_errorMessage :: "js \<Rightarrow> js + js" where
  "catch_errorMessage toolError =
     (case js_get toolError ''response'' of
        Inl e \<Rightarrow> Inl e
      | Inr response \<Rightarrow> if truthy response then js_get response ''data'' else Inr toolError)"

definition tool_catch :: "invocation \<Rightarrow> js \<Rightarrow> effect list \<times> completion" where
  "tool_catch invoc toolError =
     (case catch_errorMessage toolError of
        Inl e \<Rightarrow> ([], Raised e)
      | Inr errorMessage \<Rightarrow>
          (case ToString (toolName invoc) of
             Inl e \<Rightarrow> ([], Raised e)
           | Inr text \<Rightarrow>
               if unserialisable errorMessage
               then ([ConsoleError ''[Error executing tool ''], Raised not_serialisable)
               else ([ConsoleError ''[Error executing tool '',
                      WsSendJSON
                        [''type'' \<mapsto> JStr ''client_tool_result'',
                         ''responseType'' \<mapsto> JStr ''tool-response'',
                         ''errorType'' \<mapsto> JStr ''implementation-error'',
                         ''errorMessage'' \<mapsto> errorMessage,
                         ''invocationId'' \<mapsto> invocationId invoc]], Done)))"

definition client_tool_invocation :: "filesystem \<Rightarrow> js \<Rightarrow> invocation \<Rightarrow> effect list \<times> completion" where
  "client_tool_invocation fs uuid invoc =
     (case tool_try fs uuid invoc of
        (es, Raised toolError) \<Rightarrow>
          (let (es', c) = tool_catch invoc toolError in (es @ es', c))
      | (es, c) \<Rightarrow> (es, c))"

text \<open>What the handler that the tool name resolves to answers, when there is one to call.\<close>

definition handler_outcome :: "filesystem \<Rightarrow> js \<Rightarrow> invocation \<Rightarrow> outcome option" where
  "handler_outcome fs uuid invoc =
     (case getToolHandler fs (toolName invoc) of
        Inr (Callable handler) \<Rightarrow> Some (handler uuid (parameters invoc))
      | _ \<Rightarrow> None)"

text \<open>
  What \<^verbatim>\<open>getToolHandler\<close> or the handler throws, when one of them throws; and whether the
  \<^verbatim>\<open>catch\<close> block can report a thrown value: it can read the detail to report and
  \<^verbatim>\<open>JSON.stringify\<close> can write that detail.
\<close>

definition thrown :: "filesystem \<Rightarrow> js \<Rightarrow> invocation \<Rightarrow> js option" where
  "thrown fs uuid invoc =
     (case getToolHandler fs (toolName invoc) of
        Inl e \<Rightarrow> Some e
      | Inr (Callable handler) \<Rightarrow>
          (case handler uuid (parameters invoc) of Throws e \<Rightarrow> Some e | _ \<Rightarrow> None)
      | Inr _ \<Rightarrow> None)"

definition reportable :: "js \<Rightarrow> bool" where
  "reportable e =
     (case catch_errorMessage e of Inl e' \<Rightarrow> False | Inr errorMessage \<Rightarrow> \<not> unserialisable errorMessage)"

subsection \<open>The message callback\<close>

text \<open>
  A frame from the backend: a binary frame, or a text frame given by what
  \<^verbatim>\<open>JSON.parse(data.toString())\<close> makes of it, the parsed message or (\<open>Inl\<close>) the
  \<^verbatim>\<open>SyntaxError\<close> it throws. In the \<^verbatim>\<open>transcript\<close> case only a string has the method
  \<^verbatim>\<open>toUpperCase\<close>, and the template literal makes texts of \<^verbatim>\<open>message.medium\<close> and
  \<^verbatim>\<open>message.text\<close>.
\<close>

datatype frame = Binary chunk | Text "js + js"

definition onControl ::
  "filesystem \<Rightarrow> js \<Rightarrow> session \<Rightarrow> js \<Rightarrow> effect list \<times> session \<times> completion" where
  "onControl fs uuid s message =
     (case js_get message ''type'' of
        Inl e \<Rightarrow> ([], s, Raised e)
      | Inr (JStr ty) \<Rightarrow>
          if ty = ''call_started''
          then ([ConsoleLog ''Call started''], s\<lparr>callId := js_prop message ''callId''\<rparr>, Done)
          else if ty = ''state'' then ([ConsoleLog ''State''], s, Done)
          else if ty = ''client_tool_invocation''
          then (let invoc = \<lparr>invocationId = js_prop message ''invocationId'',
                           toolName = js_prop message ''toolName'',
                           parameters = js_prop message ''parameters''\<rparr>;
                    (es, c) = client_tool_invocation fs uuid invoc
                in (es, s, c))
          else if ty = ''transcript''
          then (if truthy (js_prop message ''final'')
                then (case js_get (js_prop message ''role'') ''toUpperCase'' of
                        Inl e \<Rightarrow> ([], s, Raised e)
                      | Inr toUpperCase \<Rightarrow>
                          (case js_prop message ''role'' of
                             JStr role \<Rightarrow>
                               (case ToString (js_prop message ''medium'') of
                                  Inl e \<Rightarrow> ([], s, Raised e)
                                | Inr medium \<Rightarrow>
                                    (case ToString (js_prop message ''text'') of
                                       Inl e \<Rightarrow> ([], s, Raised e)
                                     | Inr text \<Rightarrow> ([ConsoleLog []], s, Done)))
                           | _ \<Rightarrow> ([], s, Raised (js_Error ''TypeError''
                                          ''message.role.toUpperCase is not a function''))))
                else ([], s, Done))
          else if ty = ''playback_clear_buffer'' then ([ConsoleLog ''Playback clear buffer''], s, Done)
          else if ty = ''error'' then ([ConsoleError ''Error''], s, Done)
          else ([ConsoleLog ''Received message type:''], s, Done)
      | Inr other \<Rightarrow> ([ConsoleLog ''Received message type:''], s, Done))"

definition onMessage ::
  "filesystem \<Rightarrow> js \<Rightarrow> session \<Rightarrow> frame \<Rightarrow> effect list \<times> session \<times> completion" where
  "onMessage fs uuid s f =
     (case f of
        Binary c \<Rightarrow> (let (es, s') = onBinary s (bytes c) (now1 c) (now2 c) in (es, s', Done))
      | Text (Inl syntaxError) \<Rightarrow> ([], s, Raised syntaxError)
      | Text (Inr message) \<Rightarrow> onControl fs uuid s message)"

subsection \<open>The other callbacks\<close>

text \<open>\<^verbatim>\<open>ultravoxWebSocket.on('close')\<close> and \<^verbatim>\<open>ultravoxWebSocket.on('error')\<close>.\<close>

definition onWsClose :: "session \<Rightarrow> effect list \<times> session \<times> completion" where
  "onWsClose s = ([ConsoleLog ''WebSocket connection closed'', ResEnd], s, Done)"

definition onWsError :: "session \<Rightarrow> effect list \<times> session \<times> completion" where
  "onWsError s = ([ConsoleError ''WebSocket error:'', ResEnd], s, Done)"

text \<open>
  \<^verbatim>\<open>req.on('data')\<close>: \<open>ready\<close> is \<^verbatim>\<open>ultravoxWebSocket.readyState === ultravoxWebSocket.OPEN\<close>.
\<close>

definition onReqData :: "bool \<Rightarrow> session \<Rightarrow> byte list \<Rightarrow> effect list \<times> session \<times> completion" where
  "onReqData ready s audioChunk = (if ready then [WsSendBinary audioChunk] else [], s, Done)"

definition onReqEnd :: "session \<Rightarrow> effect list \<times> session \<times> completion" where
  "onReqEnd s = ([ConsoleLog ''Request stream ended'', WsClose], s, Done)"

text \<open>
  \<^verbatim>\<open>req.on('error')\<close> evaluates the identifier \<^verbatim>\<open>interval\<close> before it reaches
  \<^verbatim>\<open>ultravoxWebSocket.close()\<close>. \<open>bindings\<close> are the names bound where the callback is
  written: those of the callback, of \<^verbatim>\<open>handleAudioStream\<close>, of the module and of the
  wrapper Node.js puts around a module. Reading a
  name that is not bound (and is no property of the global object, as \<^verbatim>\<open>interval\<close> is
  not) throws a \<^verbatim>\<open>ReferenceError\<close>.
\<close>

definition bindings :: "string list" where
  "bindings =
     [''err'',
      ''req'', ''res'', ''uuid'', ''ultravoxWebSocket'', ''ultravoxChunksQueue'',
      ''isFirstUltravoxChunk'', ''ultravoxStartTime'', ''callId'',
      ''express'', ''axios'', ''WebSocket'', ''config'', ''loadTools'', ''loadDurableTools'',
      ''getToolHandler'', ''beforeCall'', ''app'', ''ULTRAVOX_SAMPLE_RATE'',
      ''ULTRAVOX_API_BASE_URL'', ''ULTRAVOX_CLIENT_BUFFER_SIZE_MS'', ''setupUltravox'',
      ''connectToUltravox'', ''handleAudioStream'', ''PORT'',
      ''exports'', ''require'', ''module'', ''__filename'', ''__dirname'']"

definition onReqError :: "session \<Rightarrow> effect list \<times> session \<times> completion" where
  "onReqError s =
     (if ''interval'' \<in> set bindings
      then ([ConsoleError ''Request error:'', WsClose], s, Done)
      else ([ConsoleError ''Request error:''], s,
            Raised (js_Error ''ReferenceError'' ''interval is not defined'')))"

subsection \<open>Sample inputs\<close>

text \<open>
  Three binary frames at 1000 ms, 1100 ms and 1150 ms, and a single frame; both clock
  readings of a frame coincide.
\<close>

definition three_frames :: "chunk list" where
  "three_frames =
     [\<lparr>bytes = [1], now1 = 1000, now2 = 1000\<rparr>,
      \<lparr>bytes = [2], now1 = 1100, now2 = 1100\<rparr>,
      \<lparr>bytes = [3], now1 = 1150, now2 = 1150\<rparr>]"

definition one_frame :: "chunk list" where
  "one_frame = [\<lparr>bytes = [1, 2, 3], now1 = 1000, now2 = 1000\<rparr>]"

text \<open>Invocations of a tool that has no file, of the hangup tool and of tools in \<^verbatim>\<open>tools\<close>.\<close>

definition foo_call :: invocation where
  "foo_call =
     \<lparr>invocationId = JStr ''inv-1'', toolName = JStr ''foo'', parameters = JObj Map.empty\<rparr>"

definition hangup_call :: invocation where
  "hangup_call =
     \<lparr>invocationId = JStr ''inv-2'', toolName = JStr ''avrHangup'', parameters = JObj Map.empty\<rparr>"

definition order_call :: invocation where
  "order_call =
     \<lparr>invocationId = JStr ''inv-3'', toolName = JStr ''orderStatus'', parameters = JObj Map.empty\<rparr>"

definition score_call :: invocation where
  "score_call =
     \<lparr>invocationId = JStr ''inv-4'', toolName = JStr ''creditScore'', parameters = JObj Map.empty\<rparr>"

text \<open>Answers of the AMI bridge: with a message, and with an empty body.\<close>

definition call_ended :: http where
  "call_ended = Responds (JObj [''message'' \<mapsto> JStr ''Call ended''])"

definition empty_body :: http where
  "empty_body = Responds (JObj Map.empty)"

text \<open>
  A tool whose handler returns a structured result with a further field and an
  \<^verbatim>\<open>invocationId\<close> of its own.
\<close>

definition orderStatus :: "js \<Rightarrow> js \<Rightarrow> outcome" where
  "orderStatus uuid args =
     Returns (JObj [''result'' \<mapsto> JStr ''shipped'',
                    ''responseType'' \<mapsto> JStr ''tool-response'',
                    ''agentReaction'' \<mapsto> JStr ''speaks'',
                    ''invocationId'' \<mapsto> JStr ''forged''])"

definition order_tools :: filesystem where
  "order_tools = [(Tools, ''orderStatus.js'') \<mapsto> Module (Callable orderStatus)]"

text \<open>
  A tool whose handler returns a structured result with a field that is not a number
  (\<^verbatim>\<open>NaN\<close>) and a field that is \<^verbatim>\<open>undefined\<close>.
\<close>

definition creditScore :: "js \<Rightarrow> js \<Rightarrow> outcome" where
  "creditScore uuid args =
     Returns (JObj [''result'' \<mapsto> JStr ''done'',
                    ''responseType'' \<mapsto> JStr ''tool-response'',
                    ''score'' \<mapsto> JNum ''NaN'',
                    ''note'' \<mapsto> JUndefined])"

definition score_tools :: filesystem where
  "score_tools = [(Tools, ''creditScore.js'') \<mapsto> Module (Callable creditScore)]"

text \<open>A text frame cut off in the middle, as \<^verbatim>\<open>JSON.parse\<close> answers it.\<close>

definition truncated_json :: frame where
  "truncated_json = Text (Inl (js_Error ''SyntaxError'' ''Unexpected end of JSON input''))"

text \<open>The values of some fields of a message.\<close>

definition fields :: "string list \<Rightarrow> obj \<Rightarrow> js option list" where
  "fields ks m = map m ks"

section \<open>Properties of the audio path\<close>

lemma onBinary_started:
  assumes "isFirstUltravoxChunk s = False" and "ultravoxStartTime s = Some t"
  shows "isFirstUltravoxChunk (snd (onBinary s d a b)) = False"
    and "ultravoxStartTime (snd (onBinary s d a b)) = Some t"
    and "(writes (fst (onBinary s d a b)) \<noteq> []) = (t \<noteq> 0 \<and> 100 \<le> b - t)"
  using assms by (simp_all add: onBinary_def Let_def)

lemma onBinary_first:
  assumes "isFirstUltravoxChunk s = True"
  shows "isFirstUltravoxChunk (snd (onBinary s d a b)) = False"
    and "ultravoxStartTime (snd (onBinary s d a b)) = Some a"
    and "(writes (fst (onBinary s d a b)) \<noteq> []) = (a \<noteq> 0 \<and> 100 \<le> b - a)"
  using assms by (simp_all add: onBinary_def Let_def)

lemma onBinary_flush:
  "writes (fst (onBinary s d a b)) = [] \<or>
   (writes (fst (onBinary s d a b)) = [ultravoxChunksQueue s @ d] \<and>
    ultravoxChunksQueue (snd (onBinary s d a b)) = [])"
  by (simp add: onBinary_def Let_def split: option.splits)

lemma onBinary_keeps_bytes:
  "concat (writes (fst (onBinary s d a b))) @ ultravoxChunksQueue (snd (onBinary s d a b)) =
   ultravoxChunksQueue s @ d"
  by (simp add: onBinary_def Let_def split: option.splits)

lemma receive_Cons:
  "fst (receive s (c # cs)) =
     fst (onBinary s (bytes c) (now1 c) (now2 c))
       # fst (receive (snd (onBinary s (bytes c) (now1 c) (now2 c))) cs)"
  "snd (receive s (c # cs)) = snd (receive (snd (onBinary s (bytes c) (now1 c) (now2 c))) cs)"
  by (simp_all add: split_def Let_def)

declare receive.simps(2) [simp del]

lemma receive_started_time:
  assumes "isFirstUltravoxChunk s = False" and "ultravoxStartTime s = Some t"
  shows "ultravoxStartTime (snd (receive s cs)) = Some t"
  using assms
proof (induction cs arbitrary: s)
  case Nil
  then show ?case by simp
next
  case (Cons c cs)
  show ?case
    by (simp add: receive_Cons Cons.IH onBinary_started(1,2) [OF Cons.prems])
qed

lemma receive_started_flush:
  assumes "isFirstUltravoxChunk s = False" and "ultravoxStartTime s = Some t"
    and "i < length cs"
  shows "(writes (fst (receive s cs) ! i) \<noteq> []) = (t \<noteq> 0 \<and> 100 \<le> now2 (cs ! i) - t)"
  using assms
proof (induction cs arbitrary: s i)
  case Nil
  then show ?case by simp
next
  case (Cons c cs)
  note st = onBinary_started [OF Cons.prems(1,2)]
  show ?case
  proof (cases i)
    case 0
    then show ?thesis by (simp add: receive_Cons st(3))
  next
    case (Suc j)
    then have j: "j < length cs" using Cons.prems(3) by simp
    show ?thesis using Suc by (simp add: receive_Cons Cons.IH [OF st(1,2) j])
  qed
qed

lemma receive_keeps_bytes:
  "concat (concat (map writes (fst (receive s cs)))) @ ultravoxChunksQueue (snd (receive s cs)) =
   ultravoxChunksQueue s @ concat (map bytes cs)"
proof (induction cs arbitrary: s)
  case Nil
  then show ?case by simp
next
  case (Cons c cs)
  let ?s' = "snd (onBinary s (bytes c) (now1 c) (now2 c))"
  have "concat (concat (map writes (fst (receive s (c # cs))))) @
          ultravoxChunksQueue (snd (receive s (c # cs))) =
        concat (writes (fst (onBinary s (bytes c) (now1 c) (now2 c)))) @
          (ultravoxChunksQueue ?s' @ concat (map bytes cs))"
    by (simp add: receive_Cons Cons.IH)
  also have "\<dots> =
        (concat (writes (fst (onBinary s (bytes c) (now1 c) (now2 c)))) @
           ultravoxChunksQueue ?s') @ concat (map bytes cs)"
    by simp
  also have "\<dots> = (ultravoxChunksQueue s @ bytes c) @ concat (map bytes cs)"
    by (simp only: onBinary_keeps_bytes)
  finally show ?case by simp
qed

text \<open>
  C1, as the specification has it: a frame may flush only when at least 100 ms have passed
  since the first frame after the previous flush. The code flushes the frame of 1150 ms,
  the first one after the flush at 1100 ms, at once: its reference point is still the
  1000 ms of the first frame of the session.
\<close>

theorem flush_inside_window_counterexample:
  "map writes (fst (receive session0 three_frames)) = [[], [[1, 2]], [[3]]] \<and>
   ultravoxStartTime (snd (receive session0 three_frames)) = Some 1000 \<and>
   \<not> spec_window None (zip three_frames (fst (receive session0 three_frames)))"
  by (simp add: three_frames_def session0_def receive_Cons onBinary_def Let_def)

text \<open>
  C1 (amended). The timer reference point is recorded once, by the first binary frame of
  the session, and no later frame or flush records it again. A frame flushes exactly when
  that reference point is not 0 and the frame's clock reading is at least 100 ms after it;
  so no flush happens less than 100 ms after the first binary frame of the session.
\<close>

theorem flush_window_of_session:
  assumes "i < length cs"
  shows "ultravoxStartTime (snd (receive session0 cs)) = Some (now1 (cs ! 0)) \<and>
         ((writes (fst (receive session0 cs) ! i) \<noteq> []) =
          (now1 (cs ! 0) \<noteq> 0 \<and> 100 \<le> now2 (cs ! i) - now1 (cs ! 0)))"
proof (cases cs)
  case Nil
  with assms show ?thesis by simp
next
  case (Cons c cs')
  have f: "isFirstUltravoxChunk session0 = True" by (simp add: session0_def)
  note st = onBinary_first [OF f, of "bytes c" "now1 c" "now2 c"]
  have tm: "ultravoxStartTime (snd (receive session0 cs)) = Some (now1 (cs ! 0))"
    by (simp add: Cons receive_Cons receive_started_time [OF st(1,2)])
  have fl: "(writes (fst (receive session0 cs) ! i) \<noteq> []) =
            (now1 (cs ! 0) \<noteq> 0 \<and> 100 \<le> now2 (cs ! i) - now1 (cs ! 0))"
  proof (cases i)
    case 0
    then show ?thesis by (simp add: Cons receive_Cons st(3))
  next
    case (Suc j)
    then have j: "j < length cs'" using assms Cons by simp
    show ?thesis using Suc by (simp add: Cons receive_Cons receive_started_flush [OF st(1,2) j])
  qed
  from tm fl show ?thesis by simp
qed

text \<open>The second of the three sample frames flushes, 100 ms after the first.\<close>

theorem flush_window_of_session_witness:
  "(1::nat) < length three_frames \<and>
   ultravoxStartTime (snd (receive session0 three_frames)) = Some 1000 \<and>
   writes (fst (receive session0 three_frames) ! 1) \<noteq> []"
  using flush_window_of_session [of 1 three_frames]
  by (simp add: three_frames_def)

text \<open>
  C2, as the specification has it: the bytes written to the caller are as many as the bytes
  received. A single frame of three bytes is buffered and nothing is written.
\<close>

theorem buffered_bytes_counterexample:
  "length (concat (concat (map writes (fst (receive session0 one_frame))))) = 0 \<and>
   length (concat (map bytes one_frame)) = 3 \<and>
   ultravoxChunksQueue (snd (receive session0 one_frame)) = [1, 2, 3]"
  by (simp add: one_frame_def session0_def receive_Cons onBinary_def Let_def)

text \<open>
  C2 (amended). For every sequence of binary frames, the bytes written to the caller
  followed by the bytes still in the buffer are the bytes received, in their order. A
  flush writes the whole buffer, the new frame included, as one write and empties it. The
  close and error callbacks of the backend channel write nothing: what is buffered then
  is not written.
\<close>

theorem flushed_then_buffered_is_received:
  "concat (concat (map writes (fst (receive session0 cs)))) @
     ultravoxChunksQueue (snd (receive session0 cs)) = concat (map bytes cs) \<and>
   (writes (fst (onBinary s d a b)) = [] \<or>
    (writes (fst (onBinary s d a b)) = [ultravoxChunksQueue s @ d] \<and>
     ultravoxChunksQueue (snd (onBinary s d a b)) = [])) \<and>
   writes (fst (onWsClose s)) = [] \<and> writes (fst (onWsError s)) = []"
proof -
  have "concat (concat (map writes (fst (receive session0 cs)))) @
          ultravoxChunksQueue (snd (receive session0 cs)) = concat (map bytes cs)"
    using receive_keeps_bytes [of session0 cs] by (simp add: session0_def)
  moreover note onBinary_flush [of s d a b]
  moreover have "writes (fst (onWsClose s)) = []" "writes (fst (onWsError s)) = []"
    by (simp_all add: onWsClose_def onWsError_def)
  ultimately show ?thesis by blast
qed

section \<open>Properties of the tool dispatch\<close>

lemma js_get_not_nullish:
  "v \<noteq> JUndefined \<Longrightarrow> v \<noteq> JNull \<Longrightarrow> js_get v k = Inr (js_prop v k)"
  by (cases v) (simp_all add: js_prop_def)

lemma js_get_truthy: "truthy v \<Longrightarrow> js_get v k = Inr (js_prop v k)"
  by (cases v) (simp_all add: js_prop_def)

lemma typeof_string_prop:
  "typeof_string (js_prop v k) \<Longrightarrow> v \<noteq> JUndefined \<and> v \<noteq> JNull"
  by (cases v) (simp_all add: js_prop_def)

lemma sends_append: "sends (xs @ ys) = sends xs @ sends ys"
  by (induction xs rule: sends.induct) simp_all

lemma getToolHandler_renders:
  "getToolHandler fs v = Inr h \<Longrightarrow> \<exists>t. ToString v = Inr t"
  by (cases "ToString v") (simp_all add: getToolHandler_def)

lemma hangup_resolves:
  "getToolHandler (avr_tools post) (toolName hangup_call) = Inr (Callable (avrHangup post))"
  by (simp add: getToolHandler_def require_handler_def avr_tools_def hangup_call_def)

lemma order_resolves:
  "getToolHandler order_tools (toolName order_call) = Inr (Callable orderStatus)"
  by (simp add: getToolHandler_def require_handler_def order_tools_def order_call_def)

lemma score_resolves:
  "getToolHandler score_tools (toolName score_call) = Inr (Callable creditScore)"
  by (simp add: getToolHandler_def require_handler_def score_tools_def score_call_def)

text \<open>The errors the relay makes itself can be reported, and are written as \<^verbatim>\<open>{}\<close>.\<close>

lemma catch_errorMessage_js_Error:
  "catch_errorMessage (js_Error name message) = Inr (js_Error name message)"
  by (simp add: catch_errorMessage_def js_Error_def)

lemma serialisable_js_Error: "\<not> unserialisable (js_Error name message)"
  by (simp add: js_Error_def)

lemma reportable_js_Error: "reportable (js_Error name message)"
  by (simp add: reportable_def catch_errorMessage_js_Error serialisable_js_Error)

lemma wire_js_Error: "wire (js_Error name message) = Some (JObj Map.empty)"
  by (simp add: js_Error_def)

lemma reportable_catch:
  "reportable e \<Longrightarrow> \<exists>d. catch_errorMessage e = Inr d \<and> \<not> unserialisable d"
  by (cases "catch_errorMessage e") (simp_all add: reportable_def)

lemma tool_result_string:
  "tool_result invoc (JStr s) =
     ([ConsoleLog ''>> Tool response: '',
       WsSendJSON [''type'' \<mapsto> JStr ''client_tool_result'', ''result'' \<mapsto> JStr s,
                   ''responseType'' \<mapsto> JStr ''tool-response'',
                   ''invocationId'' \<mapsto> invocationId invoc]], Done)"
  by (simp add: tool_result_def)

lemma tool_result_nullish:
  assumes "result = JUndefined \<or> result = JNull"
  shows "\<exists>e. tool_result invoc result = ([], Raised e) \<and> reportable e"
  using assms by (auto simp add: tool_result_def cannot_read_def reportable_js_Error)

lemma tool_result_reject:
  assumes "result \<noteq> JUndefined" and "result \<noteq> JNull" and "\<not> typeof_string result"
    and "\<not> (typeof_string (js_prop result ''result'') \<and>
             typeof_string (js_prop result ''responseType''))"
  shows "tool_result invoc result =
     ([WsSendJSON [''type'' \<mapsto> JStr ''client_tool_result'',
                   ''errorType'' \<mapsto> JStr ''implementation-error'',
                   ''errorMessage'' \<mapsto> JStr contract_diagnostic,
                   ''responseType'' \<mapsto> JStr ''tool-response'',
                   ''invocationId'' \<mapsto> invocationId invoc]], Done)"
  using assms by (auto simp add: tool_result_def js_get_not_nullish Let_def)

lemma tool_result_accept:
  assumes "\<not> typeof_string result"
    and "typeof_string (js_prop result ''result'')"
    and "typeof_string (js_prop result ''responseType'')"
    and "\<not> unserialisable result"
  shows "tool_result invoc result =
     ([ConsoleLog ''>> Tool response: '',
       WsSendJSON ([''type'' \<mapsto> JStr ''client_tool_result''] ++ own_enumerable result
                   ++ [''invocationId'' \<mapsto> invocationId invoc])], Done)"
proof -
  from typeof_string_prop [OF assms(2)]
  have g: "js_get result k = Inr (js_prop result k)" for k
    by (simp add: js_get_not_nullish)
  show ?thesis using assms by (simp add: tool_result_def g Let_def)
qed

lemma tool_result_unserialisable:
  assumes "\<not> typeof_string result"
    and "typeof_string (js_prop result ''result'')"
    and "typeof_string (js_prop result ''responseType'')"
    and "unserialisable result"
  shows "tool_result invoc result = ([], Raised not_serialisable)"
proof -
  from typeof_string_prop [OF assms(2)]
  have g: "js_get result k = Inr (js_prop result k)" for k
    by (simp add: js_get_not_nullish)
  show ?thesis using assms by (simp add: tool_result_def g Let_def)
qed

lemma tool_catch_sends:
  assumes "catch_errorMessage e = Inr d" and "\<not> unserialisable d"
    and "ToString (toolName invoc) = Inr t"
  shows "tool_catch invoc e =
     ([ConsoleError ''[Error executing tool '',
       WsSendJSON [''type'' \<mapsto> JStr ''client_tool_result'',
                   ''responseType'' \<mapsto> JStr ''tool-response'',
                   ''errorType'' \<mapsto> JStr ''implementation-error'',
                   ''errorMessage'' \<mapsto> d,
                   ''invocationId'' \<mapsto> invocationId invoc]], Done)"
  using assms by (simp add: tool_catch_def)

lemma tool_try_returns:
  assumes "getToolHandler fs (toolName invoc) = Inr (Callable handler)"
    and "handler uuid (parameters invoc) = Returns result"
  shows "tool_try fs uuid invoc =
           ([ConsoleLog ''>> Tool call: '', HandlerCall uuid (parameters invoc)]
              @ fst (tool_result invoc result),
            snd (tool_result invoc result))"
  using assms by (simp add: tool_try_def split_def Let_def)

lemma dispatch_done:
  "tool_try fs uuid invoc = (es, Done) \<Longrightarrow> client_tool_invocation fs uuid invoc = (es, Done)"
  by (simp add: client_tool_invocation_def)

lemma dispatch_raised:
  "tool_try fs uuid invoc = (es, Raised e) \<Longrightarrow>
   client_tool_invocation fs uuid invoc =
     (es @ fst (tool_catch invoc e), snd (tool_catch invoc e))"
  by (simp add: client_tool_invocation_def split_def Let_def)

lemma dispatch_returns_done:
  assumes "getToolHandler fs (toolName invoc) = Inr (Callable handler)"
    and "handler uuid (parameters invoc) = Returns result"
    and "tool_result invoc result = (es, Done)"
  shows "client_tool_invocation fs uuid invoc =
           ([ConsoleLog ''>> Tool call: '', HandlerCall uuid (parameters invoc)] @ es, Done)"
  using tool_try_returns [OF assms(1,2)] assms(3) by (simp add: dispatch_done)

lemma dispatch_returns_raised:
  assumes "getToolHandler fs (toolName invoc) = Inr (Callable handler)"
    and "handler uuid (parameters invoc) = Returns result"
    and "tool_result invoc result = ([], Raised e)"
    and "catch_errorMessage e = Inr d" and "\<not> unserialisable d"
  shows "client_tool_invocation fs uuid invoc =
           ([ConsoleLog ''>> Tool call: '', HandlerCall uuid (parameters invoc),
             ConsoleError ''[Error executing tool '',
             WsSendJSON [''type'' \<mapsto> JStr ''client_tool_result'',
                         ''responseType'' \<mapsto> JStr ''tool-response'',
                         ''errorType'' \<mapsto> JStr ''implementation-error'',
                         ''errorMessage'' \<mapsto> d,
                         ''invocationId'' \<mapsto> invocationId invoc]], Done)"
proof -
  from getToolHandler_renders [OF assms(1)] obtain t where t: "ToString (toolName invoc) = Inr t"
    by blast
  have "tool_try fs uuid invoc =
          ([ConsoleLog ''>> Tool call: '', HandlerCall uuid (parameters invoc)], Raised e)"
    using tool_try_returns [OF assms(1,2)] assms(3) by simp
  from dispatch_raised [OF this] show ?thesis
    by (simp add: tool_catch_sends [OF assms(4,5) t])
qed

text \<open>
  A result that passes the shape check and cannot be serialised is answered by the
  \<^verbatim>\<open>catch\<close> block: none of its fields is sent.
\<close>

lemma unserialisable_result_dispatch:
  assumes "getToolHandler fs (toolName invoc) = Inr (Callable handler)"
    and "handler uuid (parameters invoc) = Returns result"
    and "\<not> typeof_string result"
    and "typeof_string (js_prop result ''result'')"
    and "typeof_string (js_prop result ''responseType'')"
    and "unserialisable result"
  shows "sends (fst (client_tool_invocation fs uuid invoc)) =
           [[''type'' \<mapsto> JStr ''client_tool_result'',
             ''responseType'' \<mapsto> JStr ''tool-response'',
             ''errorType'' \<mapsto> JStr ''implementation-error'',
             ''errorMessage'' \<mapsto> not_serialisable,
             ''invocationId'' \<mapsto> invocationId invoc]] \<and>
         snd (client_tool_invocation fs uuid invoc) = Done"
  using dispatch_returns_raised [OF assms(1,2) tool_result_unserialisable [OF assms(3-6)],
      of not_serialisable]
  by (simp add: not_serialisable_def catch_errorMessage_js_Error serialisable_js_Error)

lemma tool_result_outcome:
  "(\<exists>e. tool_result invoc result = ([], Raised e) \<and> reportable e) \<or>
   (\<exists>es m. tool_result invoc result = (es, Done) \<and> sends es = [m] \<and>
       m ''invocationId'' = Some (invocationId invoc) \<and>
       (m ''type'' = Some (JStr ''client_tool_result'') \<or>
        (\<exists>t. own_enumerable result ''type'' = Some t \<and> m ''type'' = Some t)))"
proof -
  consider (nullish) "result = JUndefined \<or> result = JNull"
    | (string) s where "result = JStr s"
    | (unserialisable) "\<not> typeof_string result" "typeof_string (js_prop result ''result'')"
        "typeof_string (js_prop result ''responseType'')" "unserialisable result"
    | (accept) "\<not> typeof_string result" "typeof_string (js_prop result ''result'')"
        "typeof_string (js_prop result ''responseType'')" "\<not> unserialisable result"
    | (reject) "result \<noteq> JUndefined" "result \<noteq> JNull" "\<not> typeof_string result"
        "\<not> (typeof_string (js_prop result ''result'') \<and>
            typeof_string (js_prop result ''responseType''))"
    by (cases result) (auto simp add: js_prop_def)
  then show ?thesis
  proof cases
    case nullish
    from tool_result_nullish [OF this, of invoc] show ?thesis by blast
  next
    case string
    then show ?thesis by (simp add: tool_result_string)
  next
    case unserialisable
    then show ?thesis
      by (simp add: tool_result_unserialisable not_serialisable_def reportable_js_Error)
  next
    case accept
    then show ?thesis by (simp add: tool_result_accept map_add_def split: option.splits)
  next
    case reject
    then show ?thesis by (simp add: tool_result_reject)
  qed
qed

lemma tool_try_outcome:
  assumes "ToString (toolName invoc) = Inr name"
    and "handler_outcome fs uuid invoc \<noteq> Some Pending"
    and "case thrown fs uuid invoc of None \<Rightarrow> True | Some e \<Rightarrow> reportable e"
  shows "(\<exists>es e. tool_try fs uuid invoc = (es, Raised e) \<and> sends es = [] \<and> reportable e) \<or>
         (\<exists>es m. tool_try fs uuid invoc = (es, Done) \<and> sends es = [m] \<and>
             m ''invocationId'' = Some (invocationId invoc) \<and>
             (m ''type'' = Some (JStr ''client_tool_result'') \<or>
              (\<exists>result t. handler_outcome fs uuid invoc = Some (Returns result) \<and>
                     own_enumerable result ''type'' = Some t \<and> m ''type'' = Some t)))"
proof (cases "getToolHandler fs (toolName invoc)")
  case (Inl e)
  with assms(3) show ?thesis by (simp add: tool_try_def thrown_def)
next
  case (Inr h)
  show ?thesis
  proof (cases h)
    case Falsy
    with Inr assms(1) show ?thesis by (simp add: tool_try_def)
  next
    case NotCallable
    with Inr show ?thesis by (simp add: tool_try_def reportable_js_Error)
  next
    case (Callable handler)
    with Inr have res: "getToolHandler fs (toolName invoc) = Inr (Callable handler)" by simp
    then have out: "handler_outcome fs uuid invoc = Some (handler uuid (parameters invoc))"
      by (simp add: handler_outcome_def)
    show ?thesis
    proof (cases "handler uuid (parameters invoc)")
      case Pending
      with out assms(2) show ?thesis by simp
    next
      case (Throws e)
      with assms(3) res show ?thesis by (simp add: tool_try_def thrown_def)
    next
      case (Returns result)
      from tool_result_outcome [of invoc result] tool_try_returns [OF res Returns] out Returns
      show ?thesis by (auto simp add: sends_append)
    qed
  qed
qed

lemma missing_handler_export_dispatch:
  assumes "getToolHandler fs (toolName invoc) = Inr Falsy"
    and "ToString (toolName invoc) = Inr text"
  shows "client_tool_invocation fs uuid invoc =
     ([ConsoleError ''No handler found for tool: '',
       WsSendJSON [''type'' \<mapsto> JStr ''client_tool_result'',
                   ''invocationId'' \<mapsto> invocationId invoc,
                   ''errorType'' \<mapsto> JStr ''undefined'',
                   ''errorMessage'' \<mapsto> JStr (''Client tool '' @ text @ '' is not registered'')]],
      Done)"
  using assms by (simp add: client_tool_invocation_def tool_try_def)

lemma unresolved_tool_dispatch:
  assumes "ToString (toolName invoc) = Inr text"
    and "fs (Avr_tools, text @ ''.js'') = None"
    and "fs (Tools, text @ ''.js'') = None"
  shows \<open>client_tool_invocation fs uuid invoc =
     ([ConsoleError ''[Error executing tool '',
       WsSendJSON [''type'' \<mapsto> JStr ''client_tool_result'',
                   ''responseType'' \<mapsto> JStr ''tool-response'',
                   ''errorType'' \<mapsto> JStr ''implementation-error'',
                   ''errorMessage'' \<mapsto>
                     js_Error ''Error''
                       (''Tool "'' @ text @ ''" not found in any available directory''),
                   ''invocationId'' \<mapsto> invocationId invoc]], Done)\<close>
proof -
  let ?e = \<open>js_Error ''Error'' (''Tool "'' @ text @ ''" not found in any available directory'')\<close>
  have "tool_try fs uuid invoc = ([], Raised ?e)"
    using assms by (simp add: tool_try_def getToolHandler_def)
  from dispatch_raised [OF this] show ?thesis
    by (simp add: tool_catch_sends [OF catch_errorMessage_js_Error serialisable_js_Error assms(1)])
qed

text \<open>
  A tool name that no template literal can make a text of: \<^verbatim>\<open>getToolHandler\<close> throws, and
  the log of the \<^verbatim>\<open>catch\<close> block throws again. Nothing is sent.
\<close>

lemma ToString_error:
  "ToString v = Inl e \<Longrightarrow> e = cannot_convert"
  "ToStrings xs = Inl e \<Longrightarrow> e = cannot_convert"
  by (induction v and xs arbitrary: e and e rule: ToString_ToStrings.induct)
    (auto split: sum.splits option.splits js.splits)

lemma unrenderable_tool_dispatch:
  assumes "ToString (toolName invoc) = Inl e"
  shows "client_tool_invocation fs uuid invoc = ([], Raised e)"
proof -
  have e: "e = cannot_convert" using assms by (rule ToString_error)
  have "tool_try fs uuid invoc = ([], Raised e)"
    using assms by (simp add: tool_try_def getToolHandler_def)
  from dispatch_raised [OF this] assms show ?thesis
    by (simp add: tool_catch_def e cannot_convert_def catch_errorMessage_js_Error)
qed

text \<open>
  A handler that throws a value whose detail cannot be serialised, such as an \<^verbatim>\<open>Error\<close>
  with a \<^verbatim>\<open>BigInt\<close> property: \<^verbatim>\<open>JSON.stringify\<close> throws inside the \<^verbatim>\<open>catch\<close> block and
  nothing is sent.
\<close>

lemma unreportable_throw_dispatch:
  assumes "getToolHandler fs (toolName invoc) = Inr (Callable handler)"
    and "handler uuid (parameters invoc) = Throws e"
    and "catch_errorMessage e = Inr d" and "unserialisable d"
  shows "sends (fst (client_tool_invocation fs uuid invoc)) = [] \<and>
         snd (client_tool_invocation fs uuid invoc) = Raised not_serialisable"
proof -
  from getToolHandler_renders [OF assms(1)] obtain t where t: "ToString (toolName invoc) = Inr t"
    by blast
  have "tool_try fs uuid invoc =
          ([ConsoleLog ''>> Tool call: '', HandlerCall uuid (parameters invoc)], Raised e)"
    using assms(1,2) by (simp add: tool_try_def)
  from dispatch_raised [OF this] assms(3,4) t show ?thesis
    by (simp add: tool_catch_def)
qed

text \<open>
  C3. For every invocation whose tool name is not in the registry, dispatch is to answer
  with \<^verbatim>\<open>errorType = "undefined"\<close> and a message naming the tool, without calling a handler.
  The code: the tool \<^verbatim>\<open>foo\<close> has a file in neither directory, so \<^verbatim>\<open>getToolHandler\<close> throws
  and the branch that answers \<^verbatim>\<open>"undefined"\<close> (taken when a tool file exports no handler)
  is not reached; the \<^verbatim>\<open>catch\<close> block answers with \<^verbatim>\<open>errorType = "implementation-error"\<close>
  and the \<^verbatim>\<open>Error\<close> object as message. No handler is called.
\<close>

theorem unregistered_tool_gets_implementation_error:
  \<open>avr_tools call_ended (Avr_tools, ''foo.js'') = None \<and>
   avr_tools call_ended (Tools, ''foo.js'') = None \<and>
   handler_calls (fst (client_tool_invocation (avr_tools call_ended) (JStr ''abc'') foo_call)) = [] \<and>
   map (fields [''type'', ''invocationId'', ''errorType'', ''errorMessage''])
     (sends (fst (client_tool_invocation (avr_tools call_ended) (JStr ''abc'') foo_call))) =
     [[Some (JStr ''client_tool_result''), Some (JStr ''inv-1''),
       Some (JStr ''implementation-error''),
       Some (js_Error ''Error'' ''Tool "foo" not found in any available directory'')]]\<close>
proof -
  have t: "ToString (toolName foo_call) = Inr ''foo''"
    by (simp add: foo_call_def)
  have a: "avr_tools call_ended (Avr_tools, ''foo'' @ ''.js'') = None"
    and b: "avr_tools call_ended (Tools, ''foo'' @ ''.js'') = None"
    by (simp_all add: avr_tools_def)
  from unresolved_tool_dispatch [OF t a b, of "JStr ''abc''"] a b show ?thesis
    by (simp add: fields_def foo_call_def)
qed

text \<open>
  C4, as the specification has it: the \<^verbatim>\<open>errorMessage\<close> of a contract violation is exactly
  the text "tool result must be a string or an object with string result and responseType
  properties." The hangup tool, answered with an empty body, returns a record without a
  string \<^verbatim>\<open>result\<close>; the message sent carries the diagnostic of the code, which is another
  text.
\<close>

theorem contract_diagnostic_counterexample:
  \<open>map (fields [''errorType'', ''errorMessage''])
     (sends (fst (client_tool_invocation (avr_tools empty_body) (JStr ''abc'') hangup_call))) =
     [[Some (JStr ''implementation-error''),
       Some (JStr ''Client tool result must be a string or an object with string "result" and "responseType" properties.'')]] \<and>
   contract_diagnostic \<noteq>
     ''tool result must be a string or an object with string result and responseType properties.''\<close>
proof -
  let ?r = "JObj [''responseText'' \<mapsto> JUndefined, ''responseType'' \<mapsto> JStr ''tool-response'']"
  have h: "avrHangup empty_body (JStr ''abc'') (parameters hangup_call) = Returns ?r"
    by (simp add: avrHangup_def empty_body_def)
  have "tool_result hangup_call ?r =
     ([WsSendJSON [''type'' \<mapsto> JStr ''client_tool_result'',
                   ''errorType'' \<mapsto> JStr ''implementation-error'',
                   ''errorMessage'' \<mapsto> JStr contract_diagnostic,
                   ''responseType'' \<mapsto> JStr ''tool-response'',
                   ''invocationId'' \<mapsto> invocationId hangup_call]], Done)"
    by (rule tool_result_reject) (simp_all add: js_prop_def)
  from dispatch_returns_done [OF hangup_resolves h this] show ?thesis
    by (simp add: fields_def contract_diagnostic_def)
qed

text \<open>
  C4 (amended). For every handler return value that is not a plain string and does not
  carry both a string \<^verbatim>\<open>result\<close> field and a string \<^verbatim>\<open>responseType\<close> field, dispatch sends
  one \<^verbatim>\<open>client_tool_result\<close> with \<^verbatim>\<open>errorType = "implementation-error"\<close>,
  \<^verbatim>\<open>responseType = "tool-response"\<close> and the invocation's \<^verbatim>\<open>invocationId\<close>; when the value
  is neither \<^verbatim>\<open>undefined\<close> nor \<^verbatim>\<open>null\<close>, its \<^verbatim>\<open>errorMessage\<close> is exactly the diagnostic
  of the code: Client tool result must be a string or an object with string "result" and
  "responseType" properties.
\<close>

theorem contract_violation_rejected:
  assumes "getToolHandler fs (toolName invoc) = Inr (Callable handler)"
    and "handler uuid (parameters invoc) = Returns result"
    and "\<not> typeof_string result"
    and "\<not> (typeof_string (js_prop result ''result'') \<and>
             typeof_string (js_prop result ''responseType''))"
  shows "\<exists>m. sends (fst (client_tool_invocation fs uuid invoc)) = [m] \<and>
             snd (client_tool_invocation fs uuid invoc) = Done \<and>
             m ''type'' = Some (JStr ''client_tool_result'') \<and>
             m ''errorType'' = Some (JStr ''implementation-error'') \<and>
             m ''responseType'' = Some (JStr ''tool-response'') \<and>
             m ''invocationId'' = Some (invocationId invoc) \<and>
             (result \<noteq> JUndefined \<and> result \<noteq> JNull \<longrightarrow>
                m ''errorMessage'' = Some (JStr contract_diagnostic))"
proof (cases "result = JUndefined \<or> result = JNull")
  case True
  from tool_result_nullish [OF True, of invoc] obtain e where
    e: "tool_result invoc result = ([], Raised e)" "reportable e"
    by blast
  from reportable_catch [OF e(2)] obtain d where
    d: "catch_errorMessage e = Inr d" "\<not> unserialisable d"
    by blast
  from dispatch_returns_raised [OF assms(1,2) e(1) d] True show ?thesis by auto
next
  case False
  then have r: "result \<noteq> JUndefined" "result \<noteq> JNull" by simp_all
  from dispatch_returns_done [OF assms(1,2) tool_result_reject [OF r assms(3,4)]]
  show ?thesis by simp
qed

text \<open>The hangup tool, answered with a message, returns no string \<^verbatim>\<open>result\<close>.\<close>

theorem contract_violation_rejected_witness:
  "getToolHandler (avr_tools call_ended) (toolName hangup_call) =
     Inr (Callable (avrHangup call_ended)) \<and>
   avrHangup call_ended (JStr ''abc'') (parameters hangup_call) =
     Returns (JObj [''responseText'' \<mapsto> JStr ''Call ended'',
                    ''responseType'' \<mapsto> JStr ''tool-response'']) \<and>
   map (fields [''type'', ''errorType'', ''errorMessage'', ''responseType'', ''invocationId''])
     (sends (fst (client_tool_invocation (avr_tools call_ended) (JStr ''abc'') hangup_call))) =
     [[Some (JStr ''client_tool_result''), Some (JStr ''implementation-error''),
       Some (JStr contract_diagnostic), Some (JStr ''tool-response''), Some (JStr ''inv-2'')]]"
proof -
  let ?r = "JObj [''responseText'' \<mapsto> JStr ''Call ended'',
                  ''responseType'' \<mapsto> JStr ''tool-response'']"
  have b: "avrHangup call_ended (JStr ''abc'') (parameters hangup_call) = Returns ?r"
    by (simp add: avrHangup_def call_ended_def)
  have c: "\<not> typeof_string ?r" by simp
  have d: "\<not> (typeof_string (js_prop ?r ''result'') \<and> typeof_string (js_prop ?r ''responseType''))"
    by (simp add: js_prop_def)
  from contract_violation_rejected [OF hangup_resolves b c d] obtain m where
    "sends (fst (client_tool_invocation (avr_tools call_ended) (JStr ''abc'') hangup_call)) = [m]"
    "m ''type'' = Some (JStr ''client_tool_result'')"
    "m ''errorType'' = Some (JStr ''implementation-error'')"
    "m ''responseType'' = Some (JStr ''tool-response'')"
    "m ''invocationId'' = Some (invocationId hangup_call)"
    "m ''errorMessage'' = Some (JStr contract_diagnostic)"
    by auto
  with hangup_resolves b show ?thesis by (simp add: fields_def hangup_call_def)
qed

text \<open>
  C5, as the specification has it: every dispatched invocation is answered by exactly one
  \<^verbatim>\<open>client_tool_result\<close>. The hangup tool posts without a timeout; when the request is never
  answered, the callback stays at its \<^verbatim>\<open>await\<close> and no message is sent.
\<close>

theorem unanswered_handler_counterexample:
  "sends (fst (client_tool_invocation (avr_tools Unanswered) (JStr ''abc'') hangup_call)) = [] \<and>
   snd (client_tool_invocation (avr_tools Unanswered) (JStr ''abc'') hangup_call) = Suspended"
  by (simp add: client_tool_invocation_def tool_try_def hangup_resolves avrHangup_def)

text \<open>
  C5 (amended). For every dispatched invocation whose tool name a template literal can make
  a text of, whose handler call settles, and where what \<^verbatim>\<open>getToolHandler\<close> or the handler
  throws, if one of them throws, can be reported by the \<^verbatim>\<open>catch\<close> block (the thrown value
  is neither \<^verbatim>\<open>undefined\<close> nor \<^verbatim>\<open>null\<close>, and the detail taken from it, its
  \<^verbatim>\<open>response.data\<close> when it has a \<^verbatim>\<open>response\<close> and the value itself otherwise, holds no
  \<^verbatim>\<open>BigInt\<close> and no cycle), exactly one message is serialised and sent back over the
  backend channel, and it carries the \<^verbatim>\<open>invocationId\<close> of the invocation, on the success path, the unresolved-tool
  path, the contract-violation path and the handler-exception path alike. Its \<^verbatim>\<open>type\<close> is
  \<^verbatim>\<open>client_tool_result\<close>, or else the \<^verbatim>\<open>type\<close> field that the structured result of the
  handler carries.
\<close>

theorem one_result_per_settled_invocation:
  assumes "ToString (toolName invoc) = Inr name"
    and "handler_outcome fs uuid invoc \<noteq> Some Pending"
    and "case thrown fs uuid invoc of None \<Rightarrow> True | Some e \<Rightarrow> reportable e"
  shows "\<exists>m. sends (fst (client_tool_invocation fs uuid invoc)) = [m] \<and>
             sent (fst (client_tool_invocation fs uuid invoc)) = [wire_obj m] \<and>
             snd (client_tool_invocation fs uuid invoc) = Done \<and>
             m ''invocationId'' = Some (invocationId invoc) \<and>
             (m ''type'' = Some (JStr ''client_tool_result'') \<or>
              (\<exists>result t. handler_outcome fs uuid invoc = Some (Returns result) \<and>
                     own_enumerable result ''type'' = Some t \<and> m ''type'' = Some t))"
  using tool_try_outcome [OF assms]
proof (elim disjE exE conjE)
  fix es e
  assume t: "tool_try fs uuid invoc = (es, Raised e)" and s: "sends es = []"
    and e: "reportable e"
  from reportable_catch [OF e] obtain d where
    d: "catch_errorMessage e = Inr d" "\<not> unserialisable d"
    by blast
  from dispatch_raised [OF t] s show ?thesis
    by (simp add: tool_catch_sends [OF d assms(1)] sends_append sent_def)
next
  fix es m
  assume t: "tool_try fs uuid invoc = (es, Done)" and s: "sends es = [m]"
    and i: "m ''invocationId'' = Some (invocationId invoc)"
    and ty: "m ''type'' = Some (JStr ''client_tool_result'')"
  from dispatch_done [OF t] s i ty show ?thesis by (simp add: sent_def)
next
  fix es m result t
  assume t: "tool_try fs uuid invoc = (es, Done)" and s: "sends es = [m]"
    and i: "m ''invocationId'' = Some (invocationId invoc)"
    and ty: "handler_outcome fs uuid invoc = Some (Returns result)"
      "own_enumerable result ''type'' = Some t" "m ''type'' = Some t"
  from dispatch_done [OF t] s i ty show ?thesis by (simp add: sent_def)
qed

text \<open>The hangup tool, answered with a message: one message, with the invocation's id.\<close>

theorem one_result_per_settled_invocation_witness:
  "ToString (toolName hangup_call) = Inr ''avrHangup'' \<and>
   handler_outcome (avr_tools call_ended) (JStr ''abc'') hangup_call \<noteq> Some Pending \<and>
   thrown (avr_tools call_ended) (JStr ''abc'') hangup_call = None \<and>
   map (fields [''type'', ''invocationId''])
     (sends (fst (client_tool_invocation (avr_tools call_ended) (JStr ''abc'') hangup_call))) =
     [[Some (JStr ''client_tool_result''), Some (JStr ''inv-2'')]]"
proof -
  have r: "avrHangup call_ended (JStr ''abc'') (parameters hangup_call) =
     Returns (JObj [''responseText'' \<mapsto> JStr ''Call ended'',
                    ''responseType'' \<mapsto> JStr ''tool-response''])"
    by (simp add: avrHangup_def call_ended_def)
  have o: "handler_outcome (avr_tools call_ended) (JStr ''abc'') hangup_call =
     Some (Returns (JObj [''responseText'' \<mapsto> JStr ''Call ended'',
                          ''responseType'' \<mapsto> JStr ''tool-response'']))"
    by (simp add: handler_outcome_def hangup_resolves r)
  have a: "ToString (toolName hangup_call) = Inr ''avrHangup''"
    by (simp add: hangup_call_def)
  have b: "handler_outcome (avr_tools call_ended) (JStr ''abc'') hangup_call \<noteq> Some Pending"
    by (simp add: o)
  have n: "thrown (avr_tools call_ended) (JStr ''abc'') hangup_call = None"
    by (simp add: thrown_def hangup_resolves r)
  then have c: "case thrown (avr_tools call_ended) (JStr ''abc'') hangup_call of
                  None \<Rightarrow> True | Some e \<Rightarrow> reportable e"
    by simp
  from one_result_per_settled_invocation [OF a b c] obtain m where
    "sends (fst (client_tool_invocation (avr_tools call_ended) (JStr ''abc'') hangup_call)) = [m]"
    "m ''invocationId'' = Some (invocationId hangup_call)"
    "m ''type'' = Some (JStr ''client_tool_result'')"
    by (auto simp add: o)
  with a b n show ?thesis by (simp add: fields_def hangup_call_def)
qed

section \<open>Properties of the control frames and of termination\<close>

text \<open>A control message leaves the audio buffer and its timer alone.\<close>

lemma onControl_state:
  "fst (snd (onControl fs uuid s message)) = s \<or>
   fst (snd (onControl fs uuid s message)) = s\<lparr>callId := js_prop message ''callId''\<rparr>"
proof (cases "js_get message ''type''")
  case (Inl e)
  then show ?thesis by (simp add: onControl_def)
next
  case (Inr ty)
  show ?thesis
  proof (cases ty)
    case (JStr t)
    have tr: "fst (snd (case js_get (js_prop message ''role'') ''toUpperCase'' of
                        Inl e \<Rightarrow> ([], s, Raised e)
                      | Inr toUpperCase \<Rightarrow>
                          (case js_prop message ''role'' of
                             JStr role \<Rightarrow>
                               (case ToString (js_prop message ''medium'') of
                                  Inl e \<Rightarrow> ([], s, Raised e)
                                | Inr medium \<Rightarrow>
                                    (case ToString (js_prop message ''text'') of
                                       Inl e \<Rightarrow> ([], s, Raised e)
                                     | Inr text \<Rightarrow> ([ConsoleLog []], s, Done)))
                           | _ \<Rightarrow> ([], s, Raised (js_Error ''TypeError''
                                          ''message.role.toUpperCase is not a function''))))) = s"
      by (simp split: sum.splits js.splits)
    show ?thesis using Inr JStr tr
      by (simp add: onControl_def Let_def split_def)
  qed (simp_all add: onControl_def Inr)
qed

lemma onControl_keeps_audio:
  "ultravoxChunksQueue (fst (snd (onControl fs uuid s message))) = ultravoxChunksQueue s \<and>
   isFirstUltravoxChunk (fst (snd (onControl fs uuid s message))) = isFirstUltravoxChunk s \<and>
   ultravoxStartTime (fst (snd (onControl fs uuid s message))) = ultravoxStartTime s"
  using onControl_state [of fs uuid s message] by auto

text \<open>
  C6, as the specification has it: a text frame that is not valid JSON is discarded as a
  no-op with an observability signal, and the callback does not fail. The code has no
  handler around \<^verbatim>\<open>JSON.parse\<close>: on a frame cut off in the middle the callback lets the
  \<^verbatim>\<open>SyntaxError\<close> escape, and it logs nothing.
\<close>

theorem invalid_json_counterexample:
  "snd (snd (onMessage (avr_tools call_ended) (JStr ''abc'') session0 truncated_json)) =
     Raised (js_Error ''SyntaxError'' ''Unexpected end of JSON input'') \<and>
   consoles (fst (onMessage (avr_tools call_ended) (JStr ''abc'') session0 truncated_json)) = []"
  by (simp add: onMessage_def truncated_json_def)

text \<open>
  C6 (amended). For every non-binary frame whose payload is not valid JSON, the message
  callback performs no effect at all (no log, nothing sent to the backend, nothing written
  to the caller) and leaves the variables of the session as they were, so that later
  frames find the session unchanged; the \<^verbatim>\<open>SyntaxError\<close> of \<^verbatim>\<open>JSON.parse\<close> is not caught
  and leaves the callback as a rejected promise.
\<close>

theorem invalid_json_escapes_callback:
  "onMessage fs uuid s (Text (Inl e)) = ([], s, Raised e)"
  by (simp add: onMessage_def)

lemma other_callbacks_close:
  "fst (onWsClose s) = [ConsoleLog ''WebSocket connection closed'', ResEnd]"
  "fst (onWsError s) = [ConsoleError ''WebSocket error:'', ResEnd]"
  "fst (onReqEnd s) = [ConsoleLog ''Request stream ended'', WsClose]"
  by (simp_all add: onWsClose_def onWsError_def onReqEnd_def)

text \<open>
  C7. When either leg ends or fails, the other leg is to be closed. The code: the close and
  error callbacks of the backend channel end the response and the end of the caller's
  stream closes the backend channel, but the error callback of the caller's stream reads
  the unbound name \<^verbatim>\<open>interval\<close>: the \<^verbatim>\<open>ReferenceError\<close> leaves the callback before
  \<^verbatim>\<open>ultravoxWebSocket.close()\<close> is reached, and the backend channel is not closed.
\<close>

theorem request_error_leaves_backend_open:
  "onReqError s =
     ([ConsoleError ''Request error:''], s,
      Raised (js_Error ''ReferenceError'' ''interval is not defined'')) \<and>
   closes (fst (onReqError s)) = 0 \<and>
   closes (fst (onReqEnd s)) = 1"
  by (simp add: onReqError_def bindings_def onReqEnd_def)

section \<open>Properties of the result messages\<close>

text \<open>
  C8, as the specification has it: a record with a string \<^verbatim>\<open>responseText\<close> and a string
  \<^verbatim>\<open>responseType\<close> is accepted as a success result. The hangup tool returns such a record
  when the bridge answers; dispatch rejects it as a contract violation, and the
  \<^verbatim>\<open>responseText\<close> is not sent.
\<close>

theorem hangup_result_counterexample:
  "avrHangup call_ended (JStr ''abc'') (parameters hangup_call) =
     Returns (JObj [''responseText'' \<mapsto> JStr ''Call ended'',
                    ''responseType'' \<mapsto> JStr ''tool-response'']) \<and>
   map (fields [''errorType'', ''errorMessage'', ''responseText'', ''result''])
     (sends (fst (client_tool_invocation (avr_tools call_ended) (JStr ''abc'') hangup_call))) =
     [[Some (JStr ''implementation-error''), Some (JStr contract_diagnostic), None, None]]"
proof -
  let ?r = "JObj [''responseText'' \<mapsto> JStr ''Call ended'',
                  ''responseType'' \<mapsto> JStr ''tool-response'']"
  have h: "avrHangup call_ended (JStr ''abc'') (parameters hangup_call) = Returns ?r"
    by (simp add: avrHangup_def call_ended_def)
  have "tool_result hangup_call ?r =
     ([WsSendJSON [''type'' \<mapsto> JStr ''client_tool_result'',
                   ''errorType'' \<mapsto> JStr ''implementation-error'',
                   ''errorMessage'' \<mapsto> JStr contract_diagnostic,
                   ''responseType'' \<mapsto> JStr ''tool-response'',
                   ''invocationId'' \<mapsto> invocationId hangup_call]], Done)"
    by (rule tool_result_reject) (simp_all add: js_prop_def)
  from dispatch_returns_done [OF hangup_resolves h this] h show ?thesis
    by (simp add: fields_def)
qed

text \<open>
  C8 (amended). For every handler return value that is a structured record carrying a
  string \<^verbatim>\<open>responseText\<close> field together with a string \<^verbatim>\<open>responseType\<close> field, dispatch
  accepts it as a success result exactly when the record also carries a string \<^verbatim>\<open>result\<close>
  field; without one it is rejected as a contract violation, with
  \<^verbatim>\<open>errorType = "implementation-error"\<close> and the diagnostic of the code. An accepted record
  is sent as the success result when \<^verbatim>\<open>JSON.stringify\<close> can write it; when it holds a
  \<^verbatim>\<open>BigInt\<close> or a cycle, the \<^verbatim>\<open>catch\<close> block answers with the \<^verbatim>\<open>TypeError\<close> of
  \<^verbatim>\<open>JSON.stringify\<close>.
\<close>

theorem responseText_needs_result:
  assumes "getToolHandler fs (toolName invoc) = Inr (Callable handler)"
    and "handler uuid (parameters invoc) = Returns (JObj r)"
    and "r ''responseText'' = Some (JStr text)"
    and "r ''responseType'' = Some (JStr t)"
  shows "sends (fst (client_tool_invocation fs uuid invoc)) =
          [if typeof_string (js_prop (JObj r) ''result'')
           then if unserialisable (JObj r)
                then [''type'' \<mapsto> JStr ''client_tool_result'',
                      ''responseType'' \<mapsto> JStr ''tool-response'',
                      ''errorType'' \<mapsto> JStr ''implementation-error'',
                      ''errorMessage'' \<mapsto> not_serialisable,
                      ''invocationId'' \<mapsto> invocationId invoc]
                else [''type'' \<mapsto> JStr ''client_tool_result''] ++ r
                     ++ [''invocationId'' \<mapsto> invocationId invoc]
           else [''type'' \<mapsto> JStr ''client_tool_result'',
                 ''errorType'' \<mapsto> JStr ''implementation-error'',
                 ''errorMessage'' \<mapsto> JStr contract_diagnostic,
                 ''responseType'' \<mapsto> JStr ''tool-response'',
                 ''invocationId'' \<mapsto> invocationId invoc]]"
proof (cases "typeof_string (js_prop (JObj r) ''result'')")
  case True
  have s: "\<not> typeof_string (JObj r)" by simp
  have t: "typeof_string (js_prop (JObj r) ''responseType'')"
    using assms(4) by (simp add: js_prop_def)
  show ?thesis
  proof (cases "unserialisable (JObj r)")
    case u: True
    from unserialisable_result_dispatch [OF assms(1,2) s True t u] True u
    show ?thesis by (simp del: unserialisable.simps)
  next
    case u: False
    from dispatch_returns_done [OF assms(1,2) tool_result_accept [OF s True t u]] True u
    show ?thesis by (simp del: unserialisable.simps)
  qed
next
  case False
  have r: "JObj r \<noteq> JUndefined" "JObj r \<noteq> JNull" "\<not> typeof_string (JObj r)"
    "\<not> (typeof_string (js_prop (JObj r) ''result'') \<and>
        typeof_string (js_prop (JObj r) ''responseType''))"
    using False by simp_all
  from dispatch_returns_done [OF assms(1,2) tool_result_reject [OF r]] False
  show ?thesis by simp
qed

text \<open>The record of the hangup tool has no \<^verbatim>\<open>result\<close>: the message sent is the rejection.\<close>

theorem responseText_needs_result_witness:
  "getToolHandler (avr_tools call_ended) (toolName hangup_call) =
     Inr (Callable (avrHangup call_ended)) \<and>
   avrHangup call_ended (JStr ''abc'') (parameters hangup_call) =
     Returns (JObj [''responseText'' \<mapsto> JStr ''Call ended'',
                    ''responseType'' \<mapsto> JStr ''tool-response'']) \<and>
   map (fields [''type'', ''errorType'', ''responseText'', ''invocationId''])
     (sends (fst (client_tool_invocation (avr_tools call_ended) (JStr ''abc'') hangup_call))) =
     [[Some (JStr ''client_tool_result''), Some (JStr ''implementation-error''), None,
       Some (JStr ''inv-2'')]]"
proof -
  let ?m = "[''responseText'' \<mapsto> JStr ''Call ended'', ''responseType'' \<mapsto> JStr ''tool-response'']"
  have b: "avrHangup call_ended (JStr ''abc'') (parameters hangup_call) = Returns (JObj ?m)"
    by (simp add: avrHangup_def call_ended_def)
  have c: "?m ''responseText'' = Some (JStr ''Call ended'')"
    and d: "?m ''responseType'' = Some (JStr ''tool-response'')"
    by simp_all
  from responseText_needs_result [OF hangup_resolves b c d] hangup_resolves b
  show ?thesis by (simp add: fields_def js_prop_def hangup_call_def)
qed

text \<open>
  C9. For every handler result that is a plain string \<open>s\<close>, the \<^verbatim>\<open>client_tool_result\<close>
  message sent has \<^verbatim>\<open>responseType = "tool-response"\<close> and \<^verbatim>\<open>result\<close> equal to \<open>s\<close>, together
  with the \<^verbatim>\<open>invocationId\<close> of the invocation; it is the only message sent.
\<close>

theorem string_result_message:
  assumes "getToolHandler fs (toolName invoc) = Inr (Callable handler)"
    and "handler uuid (parameters invoc) = Returns (JStr s)"
  shows "sends (fst (client_tool_invocation fs uuid invoc)) =
           [[''type'' \<mapsto> JStr ''client_tool_result'', ''result'' \<mapsto> JStr s,
             ''responseType'' \<mapsto> JStr ''tool-response'',
             ''invocationId'' \<mapsto> invocationId invoc]] \<and>
         snd (client_tool_invocation fs uuid invoc) = Done"
  using dispatch_returns_done [OF assms tool_result_string] by simp

text \<open>The hangup tool returns a string when its request fails.\<close>

theorem string_result_message_witness:
  "getToolHandler (avr_tools (Fails ''connect ECONNREFUSED'')) (toolName hangup_call) =
     Inr (Callable (avrHangup (Fails ''connect ECONNREFUSED''))) \<and>
   avrHangup (Fails ''connect ECONNREFUSED'') (JStr ''abc'') (parameters hangup_call) =
     Returns (JStr ''Error during hangup: connect ECONNREFUSED'') \<and>
   map (fields [''type'', ''result'', ''responseType'', ''invocationId''])
     (sends (fst (client_tool_invocation (avr_tools (Fails ''connect ECONNREFUSED''))
                    (JStr ''abc'') hangup_call))) =
     [[Some (JStr ''client_tool_result''),
       Some (JStr ''Error during hangup: connect ECONNREFUSED''),
       Some (JStr ''tool-response''), Some (JStr ''inv-2'')]]"
proof -
  have b: "avrHangup (Fails ''connect ECONNREFUSED'') (JStr ''abc'') (parameters hangup_call) =
     Returns (JStr ''Error during hangup: connect ECONNREFUSED'')"
    by (simp add: avrHangup_def)
  from string_result_message [OF hangup_resolves b] hangup_resolves b
  show ?thesis by (simp add: fields_def hangup_call_def)
qed

text \<open>
  C10, as the claim has it: the outbound message contains every field of an accepted
  return value as it is. What is sent is the text \<^verbatim>\<open>JSON.stringify\<close> writes: of the sample
  result, the field \<^verbatim>\<open>score\<close>, which is \<^verbatim>\<open>NaN\<close>, reaches the backend as \<^verbatim>\<open>null\<close>, and the
  field \<^verbatim>\<open>note\<close>, which is \<^verbatim>\<open>undefined\<close>, does not reach it.
\<close>

theorem unserialised_fields_counterexample:
  "creditScore (JStr ''abc'') (parameters score_call) =
     Returns (JObj [''result'' \<mapsto> JStr ''done'',
                    ''responseType'' \<mapsto> JStr ''tool-response'',
                    ''score'' \<mapsto> JNum ''NaN'',
                    ''note'' \<mapsto> JUndefined]) \<and>
   map (fields [''result'', ''responseType'', ''score'', ''note''])
     (sent (fst (client_tool_invocation score_tools (JStr ''abc'') score_call))) =
     [[Some (JStr ''done''), Some (JStr ''tool-response''), Some JNull, None]]"
proof -
  let ?m = "[''result'' \<mapsto> JStr ''done'', ''responseType'' \<mapsto> JStr ''tool-response'',
             ''score'' \<mapsto> JNum ''NaN'', ''note'' \<mapsto> JUndefined]"
  have b: "creditScore (JStr ''abc'') (parameters score_call) = Returns (JObj ?m)"
    by (simp add: creditScore_def)
  have c: "\<not> typeof_string (JObj ?m)"
    and d: "typeof_string (js_prop (JObj ?m) ''result'')"
    and e: "typeof_string (js_prop (JObj ?m) ''responseType'')"
    by (simp_all add: js_prop_def)
  have u: "\<not> unserialisable (JObj ?m)"
    by (auto split: if_splits)
  from dispatch_returns_done [OF score_resolves b tool_result_accept [OF c d e u]] b
  show ?thesis by (simp add: sent_def fields_def wire_obj_def)
qed

text \<open>
  C10 (amended). For every handler return value accepted as a structured result (not a
  string, with a string \<^verbatim>\<open>result\<close> and a string \<^verbatim>\<open>responseType\<close>) that \<^verbatim>\<open>JSON.stringify\<close>
  can write (it holds no \<^verbatim>\<open>BigInt\<close> and no cycle), exactly one message is sent, and the
  backend reads in it: every field of the return value as \<^verbatim>\<open>JSON.stringify\<close> writes it,
  the fields beyond \<^verbatim>\<open>result\<close> and \<^verbatim>\<open>responseType\<close> included, so unchanged when it is a
  value JSON has, as \<^verbatim>\<open>null\<close> when it is a number that is not finite, and not at all when
  it is \<^verbatim>\<open>undefined\<close>; the \<^verbatim>\<open>type\<close> \<^verbatim>\<open>client_tool_result\<close> unless the return value has a
  \<^verbatim>\<open>type\<close> of its own; and always the \<^verbatim>\<open>invocationId\<close> the backend assigned, whatever
  \<^verbatim>\<open>invocationId\<close> the return value carries. The message has no other field.
\<close>

theorem structured_result_serialised:
  assumes "getToolHandler fs (toolName invoc) = Inr (Callable handler)"
    and "handler uuid (parameters invoc) = Returns result"
    and "\<not> typeof_string result"
    and "typeof_string (js_prop result ''result'')"
    and "typeof_string (js_prop result ''responseType'')"
    and "\<not> unserialisable result"
  shows "\<exists>m. sent (fst (client_tool_invocation fs uuid invoc)) = [m] \<and>
             snd (client_tool_invocation fs uuid invoc) = Done \<and>
             m ''invocationId'' = wire (invocationId invoc) \<and>
             (\<forall>k. k \<noteq> ''invocationId'' \<longrightarrow>
                  m k = (case own_enumerable result k of
                           Some v \<Rightarrow> wire v
                         | None \<Rightarrow> if k = ''type'' then Some (JStr ''client_tool_result'')
                                   else None)) \<and>
             (\<forall>k v. k \<noteq> ''invocationId'' \<longrightarrow> own_enumerable result k = Some v \<longrightarrow>
                    wire v = Some v \<longrightarrow> m k = Some v)"
  using dispatch_returns_done [OF assms(1,2) tool_result_accept [OF assms(3-6)]]
  by (simp add: sent_def wire_obj_def map_add_def split: option.splits)

text \<open>
  The sample tool returns a further field and an \<^verbatim>\<open>invocationId\<close> of its own: the field
  is sent on, the \<^verbatim>\<open>invocationId\<close> is the backend's.
\<close>

theorem structured_result_serialised_witness:
  "getToolHandler order_tools (toolName order_call) = Inr (Callable orderStatus) \<and>
   map (fields [''type'', ''result'', ''responseType'', ''agentReaction'', ''invocationId'',
                ''errorType''])
     (sent (fst (client_tool_invocation order_tools (JStr ''abc'') order_call))) =
     [[Some (JStr ''client_tool_result''), Some (JStr ''shipped''), Some (JStr ''tool-response''),
       Some (JStr ''speaks''), Some (JStr ''inv-3''), None]]"
proof -
  let ?m = "[''result'' \<mapsto> JStr ''shipped'', ''responseType'' \<mapsto> JStr ''tool-response'',
             ''agentReaction'' \<mapsto> JStr ''speaks'', ''invocationId'' \<mapsto> JStr ''forged'']"
  have b: "orderStatus (JStr ''abc'') (parameters order_call) = Returns (JObj ?m)"
    by (simp add: orderStatus_def)
  have c: "\<not> typeof_string (JObj ?m)"
    and d: "typeof_string (js_prop (JObj ?m) ''result'')"
    and e: "typeof_string (js_prop (JObj ?m) ''responseType'')"
    by (simp_all add: js_prop_def)
  have u: "\<not> unserialisable (JObj ?m)"
    by (auto split: if_splits)
  from structured_result_serialised [OF order_resolves b c d e u] obtain m where
    m: "sent (fst (client_tool_invocation order_tools (JStr ''abc'') order_call)) = [m]"
      "m ''invocationId'' = wire (invocationId order_call)"
      "\<forall>k. k \<noteq> ''invocationId'' \<longrightarrow>
           m k = (case own_enumerable (JObj ?m) k of
                    Some v \<Rightarrow> wire v
                  | None \<Rightarrow> if k = ''type'' then Some (JStr ''client_tool_result'') else None)"
    by blast
  from m(3) have "m ''type'' = Some (JStr ''client_tool_result'')"
    "m ''result'' = Some (JStr ''shipped'')"
    "m ''responseType'' = Some (JStr ''tool-response'')"
    "m ''agentReaction'' = Some (JStr ''speaks'')"
    "m ''errorType'' = None"
    by simp_all
  then show ?thesis using m(1,2) order_resolves
    by (simp add: fields_def order_call_def)
qed

end
